theory Spec2Isabelle
  imports Complex_Main
begin

section \<open>JavaScript strings\<close>

text \<open>
  A JavaScript string is modelled as a \<^typ>\<open>string\<close>; a \<^typ>\<open>char\<close> stands for a UTF-16
  code unit below 256. The white space that \<^verbatim>\<open>String.prototype.trim\<close> removes is, in that
  range, TAB, LF, VT, FF, CR, SPACE and NBSP.
\<close>

definition isWhiteSpace :: "char \<Rightarrow> bool" where
  "isWhiteSpace c =
     (c = CHR 0x09 \<or> c = CHR 0x0A \<or> c = CHR 0x0B \<or> c = CHR 0x0C \<or> c = CHR 0x0D
      \<or> c = CHR 0x20 \<or> c = CHR 0xA0)"

definition trim :: "string \<Rightarrow> string" where
  "trim s = rev (dropWhile isWhiteSpace (rev (dropWhile isWhiteSpace s)))"

definition startsWith :: "string \<Rightarrow> string \<Rightarrow> bool" where
  "startsWith s p = (take (length p) s = p)"

definition endsWith :: "string \<Rightarrow> string \<Rightarrow> bool" where
  "endsWith s p = (length p \<le> length s \<and> drop (length s - length p) s = p)"

text \<open>
  Truthiness of a value of type \<^verbatim>\<open>string | null | undefined\<close>: only a non-empty string
  is truthy. \<open>orElse v d\<close> is the JavaScript expression \<^verbatim>\<open>v || d\<close>.
\<close>

definition truthy :: "string option \<Rightarrow> bool" where
  "truthy v = (case v of None \<Rightarrow> False | Some s \<Rightarrow> s \<noteq> [])"

definition orElse :: "string option \<Rightarrow> string \<Rightarrow> string" where
  "orElse v d = (case v of None \<Rightarrow> d | Some s \<Rightarrow> if s = [] then d else s)"

text \<open>
  Values that reach a \<^verbatim>\<open>catch (e: any)\<close>: a thrown string, an \<^verbatim>\<open>Error\<close> with its
  \<^verbatim>\<open>message\<close>, or another object with an optional \<^verbatim>\<open>str\<close> property (the shape of the
  render engine's parse failures). \<^verbatim>\<open>null\<close> and \<^verbatim>\<open>undefined\<close> are not modelled as thrown
  values.
\<close>

datatype thrown = ThrownString string | ThrownError string | ThrownObject "string option"

text \<open>The property \<^verbatim>\<open>e.message\<close> of a caught value.\<close>

fun messageOf :: "thrown \<Rightarrow> string option" where
  "messageOf (ThrownString s) = None"
| "messageOf (ThrownError m) = Some m"
| "messageOf (ThrownObject str) = None"

section \<open>types.ts\<close>

datatype LogLevel = INFO | SUCCESS | WARNING | ERROR

text \<open>
  A log entry; its \<^verbatim>\<open>id\<close> (a random string) and \<^verbatim>\<open>timestamp\<close> (the wall clock) are
  left out.
\<close>

record LogEntry =
  level :: LogLevel
  message :: string
  details :: "string option"

datatype DiagramType =
  Auto | Flowchart | Sequence | Class | State | ERRelationship | Gantt | UserJourney
  | Mindmap | Pie | Gitgraph

section \<open>services/gemini.ts\<close>

text \<open>
  The file holds two versions of the module; the second one is modelled (the one that exports
  \<^verbatim>\<open>isAIEnabled\<close>, which \<^verbatim>\<open>App.tsx\<close> imports). \<open>apiKey\<close> is \<^verbatim>\<open>process.env.API_KEY\<close>,
  a string or \<^verbatim>\<open>undefined\<close>.
\<close>

definition isAIEnabled :: "string option \<Rightarrow> bool" where
  "isAIEnabled apiKey =
     (case apiKey of None \<Rightarrow> False
      | Some k \<Rightarrow> k \<noteq> [] \<and> length k > 0 \<and> k \<noteq> ''undefined'')"

text \<open>The client object, built only when the capability is enabled.\<close>

datatype GoogleGenAI = GoogleGenAI string

definition ai :: "string option \<Rightarrow> GoogleGenAI option" where
  "ai apiKey =
     (if isAIEnabled apiKey then (case apiKey of None \<Rightarrow> None | Some k \<Rightarrow> Some (GoogleGenAI k))
      else None)"

definition cleanResponse :: "string \<Rightarrow> string" where
  "cleanResponse text =
     (let cleaned = trim text;
          cleaned = (if startsWith cleaned ''```mermaid'' then drop 10 cleaned
                     else if startsWith cleaned ''```'' then drop 3 cleaned
                     else cleaned);
          cleaned = (if endsWith cleaned ''```'' then take (length cleaned - 3) cleaned
                     else cleaned)
      in trim cleaned)"

text \<open>
  A call \<^verbatim>\<open>ai.models.generateContent\<close> to the external service. The request is kept by the
  values the prompt template is filled with; the template text itself is not modelled. The
  service either throws or answers with a response whose \<^verbatim>\<open>text\<close> may be undefined.
\<close>

datatype request = GenerateRequest string DiagramType | FixRequest string string

datatype response = ServiceThrows thrown | ServiceResponse "string option"

definition disabledError :: thrown where
  "disabledError = ThrownError ''AI features are disabled. API Key is missing.''"

text \<open>
  Each of the two async functions is split at its one \<^verbatim>\<open>await\<close>: the part that runs up to
  the service call (\<open>Inl\<close>: rejected before any call, \<open>Inr\<close>: the request sent), and the part
  that runs when the service has answered.
\<close>

definition generateMermaidCode_call ::
  "string option \<Rightarrow> string \<Rightarrow> DiagramType \<Rightarrow> thrown + request" where
  "generateMermaidCode_call apiKey prompt type =
     (if ai apiKey = None \<or> \<not> isAIEnabled apiKey then Inl disabledError
      else Inr (GenerateRequest prompt type))"

definition fixMermaidCode_call ::
  "string option \<Rightarrow> string \<Rightarrow> string \<Rightarrow> thrown + request" where
  "fixMermaidCode_call apiKey brokenCode errorMessage =
     (if ai apiKey = None \<or> \<not> isAIEnabled apiKey then Inl disabledError
      else Inr (FixRequest brokenCode errorMessage))"

definition serviceReturn :: "response \<Rightarrow> thrown + string" where
  "serviceReturn r =
     (case r of ServiceThrows e \<Rightarrow> Inl e
      | ServiceResponse text \<Rightarrow> Inr (cleanResponse (orElse text [])))"

text \<open>
  The whole functions, against a service given as a function: the result is paired with the
  list of requests that were sent to the service.
\<close>

definition generateMermaidCode ::
  "string option \<Rightarrow> (request \<Rightarrow> response) \<Rightarrow> string \<Rightarrow> DiagramType
     \<Rightarrow> request list \<times> (thrown + string)" where
  "generateMermaidCode apiKey service prompt type =
     (case generateMermaidCode_call apiKey prompt type of
        Inl e \<Rightarrow> ([], Inl e)
      | Inr req \<Rightarrow> ([req], serviceReturn (service req)))"

definition fixMermaidCode ::
  "string option \<Rightarrow> (request \<Rightarrow> response) \<Rightarrow> string \<Rightarrow> string
     \<Rightarrow> request list \<times> (thrown + string)" where
  "fixMermaidCode apiKey service brokenCode errorMessage =
     (case fixMermaidCode_call apiKey brokenCode errorMessage of
        Inl e \<Rightarrow> ([], Inl e)
      | Inr req \<Rightarrow> ([req], serviceReturn (service req)))"

section \<open>components/MermaidRenderer.tsx and App.tsx\<close>

subsection \<open>The render engine\<close>

text \<open>
  The render engine (\<^verbatim>\<open>mermaid.parse\<close> followed by \<^verbatim>\<open>mermaid.render\<close>) is external. One
  compile either throws, in one of the two calls, or yields the markup of the graphic. The
  element id \<^verbatim>\<open>mermaid-${Date.now()}\<close> is an argument of the engine only and is not kept.
\<close>

datatype compiled = Rejects thrown | Renders string

text \<open>The message the \<^verbatim>\<open>catch\<close> branch of \<^verbatim>\<open>renderDiagram\<close> extracts.\<close>

fun renderErrorMessage :: "thrown \<Rightarrow> string" where
  "renderErrorMessage (ThrownString s) = s"
| "renderErrorMessage (ThrownError m) = m"
| "renderErrorMessage (ThrownObject str) = orElse str ''Unknown rendering error''"

text \<open>
  \<^verbatim>\<open>svg.replace(/max-width:\s*[^;"]+;/g, '')\<close>. White space belongs to the class
  \<^verbatim>\<open>[^;"]\<close>, so the pattern matches at a position exactly when \<^verbatim>\<open>max-width:\<close> is followed by
  a non-empty run of characters other than \<^verbatim>\<open>;\<close> and \<^verbatim>\<open>"\<close> that ends at a \<^verbatim>\<open>;\<close>.
  \<open>matchMaxWidth s\<close> is the rest of \<open>s\<close> after a match at its start.
\<close>

definition styleChar :: "char \<Rightarrow> bool" where
  "styleChar c = (c \<noteq> CHR 0x3B \<and> c \<noteq> CHR 0x22)"

definition matchMaxWidth :: "string \<Rightarrow> string option" where
  "matchMaxWidth s =
     (if startsWith s ''max-width:''
      then (let t = drop 10 s; u = dropWhile styleChar t
            in if takeWhile styleChar t \<noteq> [] \<and> startsWith u [CHR 0x3B] then Some (drop 1 u)
               else None)
      else None)"

function stripMaxWidth :: "string \<Rightarrow> string" where
  "stripMaxWidth [] = []"
| "stripMaxWidth (c # cs) =
     (case matchMaxWidth (c # cs) of
        Some rest \<Rightarrow> stripMaxWidth rest
      | None \<Rightarrow> c # stripMaxWidth cs)"
  by pat_completeness auto
termination
proof (relation "measure length")
  fix c :: char and cs rest :: string
  assume "matchMaxWidth (c # cs) = Some rest"
  then have "rest = drop 1 (dropWhile styleChar (drop 10 (c # cs)))"
    by (simp add: matchMaxWidth_def Let_def split: if_splits)
  moreover have "length (dropWhile styleChar (drop 10 (c # cs))) \<le> length (drop 10 (c # cs))"
    by (rule length_dropWhile_le)
  ultimately show "(rest, c # cs) \<in> measure length"
    by simp
qed simp_all

subsection \<open>State\<close>

text \<open>
  One instance of the render effect of \<^verbatim>\<open>MermaidRenderer\<close>: the source text its closure
  holds, its own \<^verbatim>\<open>isMounted\<close> flag, and where its compile stands (\<open>NotStarted\<close>: the
  guard on blank source returned before any call to the engine).
\<close>

datatype compile = NotStarted | InFlight | Settled

record run =
  source :: string
  isMounted :: bool
  status :: compile

text \<open>A call of \<^verbatim>\<open>fixMermaidCode\<close> that reached the service.\<close>

record fixCall =
  sent :: request
  outstanding :: bool

text \<open>A call of one of the two hooks \<^verbatim>\<open>onSuccess\<close>, \<^verbatim>\<open>onError\<close> of the renderer.\<close>

datatype notification = NotifySuccess | NotifyError string

text \<open>
  The state of \<^verbatim>\<open>App\<close> (\<open>code\<close>, \<open>logs\<close>, \<open>error\<close>, \<open>isProcessing\<close>) and of the
  \<^verbatim>\<open>MermaidRenderer\<close> it shows (\<open>svgContent\<close>, \<open>pan\<close>, \<open>scale\<close>, \<open>isDragging\<close>, the ref
  \<open>dragStart\<close>), with the effect instances created so far (newest last), the hook calls made
  so far and the service calls made so far. Numbers are reals. View mode, prompt input and
  diagram type selection are left out; the preview pane is shown throughout.
\<close>

record state =
  code :: string
  logs :: "LogEntry list"
  error :: "string option"
  isProcessing :: bool
  svgContent :: string
  pan :: "real \<times> real"
  scale :: real
  isDragging :: bool
  dragStart :: "real \<times> real"
  runs :: "run list"
  notifications :: "notification list"
  fixCalls :: "fixCall list"

definition INITIAL_CODE :: string where
  "INITIAL_CODE =
     ''graph TD'' @ [CHR 0x0A] @
     ''    A[Start] --> B{Is it working?}'' @ [CHR 0x0A] @
     ''    B -- Yes --> C[Great!]'' @ [CHR 0x0A] @
     ''    B -- No --> D[Debug]'' @ [CHR 0x0A] @
     ''    D -- Manual Fix --> C''"

subsection \<open>App: log and render hooks\<close>

definition addLog :: "LogLevel \<Rightarrow> string \<Rightarrow> string option \<Rightarrow> state \<Rightarrow> state" where
  "addLog lv msg det st =
     st\<lparr>logs := logs st @ [\<lparr>level = lv, message = msg, details = det\<rparr>]\<rparr>"

definition handleMermaidError :: "string \<Rightarrow> state \<Rightarrow> state" where
  "handleMermaidError errorMsg st =
     addLog ERROR ''Rendering Failed'' (Some errorMsg) (st\<lparr>error := Some errorMsg\<rparr>)"

definition handleMermaidSuccess :: "state \<Rightarrow> state" where
  "handleMermaidSuccess st =
     (if truthy (error st)
      then addLog SUCCESS ''Diagram Rendered Successfully'' None (st\<lparr>error := None\<rparr>)
      else st)"

text \<open>
  The props \<^verbatim>\<open>onError\<close> and \<^verbatim>\<open>onSuccess\<close> of the renderer are bound to the two handlers;
  every call is recorded. \<^verbatim>\<open>handleMermaidSuccess\<close> is rebuilt whenever \<open>error\<close> changes and
  the render effect depends on it, so the \<open>error\<close> it reads is the current one.
\<close>

definition onError :: "string \<Rightarrow> state \<Rightarrow> state" where
  "onError msg st =
     handleMermaidError msg (st\<lparr>notifications := notifications st @ [NotifyError msg]\<rparr>)"

definition onSuccess :: "state \<Rightarrow> state" where
  "onSuccess st =
     handleMermaidSuccess (st\<lparr>notifications := notifications st @ [NotifySuccess]\<rparr>)"

subsection \<open>MermaidRenderer: the render effect\<close>

text \<open>
  The effect with dependencies \<^verbatim>\<open>[code, onError, onSuccess]\<close>. \<open>renderEffect\<close> is its body up
  to the first \<^verbatim>\<open>await\<close>: a fresh \<^verbatim>\<open>isMounted = true\<close> and the call of \<^verbatim>\<open>renderDiagram\<close>,
  which returns at once on blank source. \<open>cleanup\<close> is the function the effect returns; it
  belongs to the newest instance. \<open>commit old st\<close> is what React does after the state updates of
  one event: when a dependency differs from the one of the last render (\<open>code\<close>, or
  \<open>onSuccess\<close>, which changes with \<open>error\<close>), the old instance is cleaned up and the effect
  runs again.
\<close>

definition cleanup :: "state \<Rightarrow> state" where
  "cleanup st =
     (if runs st = [] then st
      else st\<lparr>runs := (runs st)[length (runs st) - 1 := (last (runs st))\<lparr>isMounted := False\<rparr>]\<rparr>)"

definition renderEffect :: "state \<Rightarrow> state" where
  "renderEffect st =
     st\<lparr>runs := runs st @
        [\<lparr>source = code st, isMounted = True,
          status = (if trim (code st) = [] then NotStarted else InFlight)\<rparr>]\<rparr>"

definition commit :: "state \<Rightarrow> state \<Rightarrow> state" where
  "commit old st =
     (if code st = code old \<and> error st = error old then st else renderEffect (cleanup st))"

text \<open>
  The rest of \<^verbatim>\<open>renderDiagram\<close> of instance \<open>i\<close>, run when the engine has settled with \<open>r\<close>.
\<close>

definition renderDiagram_settle :: "nat \<Rightarrow> compiled \<Rightarrow> state \<Rightarrow> state" where
  "renderDiagram_settle i r st =
     (case r of
        Renders svg \<Rightarrow>
          (if isMounted (runs st ! i)
           then (let cleanedSvg = stripMaxWidth svg;
                     st1 = st\<lparr>svgContent := cleanedSvg\<rparr>;
                     st2 = onSuccess st1;
                     st3 = st2\<lparr>pan := (0, 0)\<rparr>
                 in st3\<lparr>scale := 1\<rparr>)
           else st)
      | Rejects e \<Rightarrow>
          (if isMounted (runs st ! i) then onError (renderErrorMessage e) st else st))"

subsection \<open>MermaidRenderer: pan and zoom\<close>

definition handleMouseDown :: "real \<Rightarrow> real \<Rightarrow> state \<Rightarrow> state" where
  "handleMouseDown clientX clientY st =
     st\<lparr>isDragging := True, dragStart := (clientX - fst (pan st), clientY - snd (pan st))\<rparr>"

definition handleMouseMove :: "real \<Rightarrow> real \<Rightarrow> state \<Rightarrow> state" where
  "handleMouseMove clientX clientY st =
     (if \<not> isDragging st then st
      else st\<lparr>pan := (clientX - fst (dragStart st), clientY - snd (dragStart st))\<rparr>)"

definition handleMouseUp :: "state \<Rightarrow> state" where
  "handleMouseUp st = st\<lparr>isDragging := False\<rparr>"

definition handleWheel :: "real \<Rightarrow> state \<Rightarrow> state" where
  "handleWheel deltaY st =
     (let zoomSensitivity = 0.001;
          delta = - deltaY * zoomSensitivity;
          newScale = min (max 0.1 (scale st + delta)) 5
      in st\<lparr>scale := newScale\<rparr>)"

definition zoomIn :: "state \<Rightarrow> state" where
  "zoomIn st = st\<lparr>scale := min 5 (scale st * 1.2)\<rparr>"

definition zoomOut :: "state \<Rightarrow> state" where
  "zoomOut st = st\<lparr>scale := max 0.1 (scale st / 1.2)\<rparr>"

definition resetView :: "state \<Rightarrow> state" where
  "resetView st = st\<lparr>scale := 1, pan := (0, 0)\<rparr>"

subsection \<open>App: the correction loop\<close>

text \<open>
  \<^verbatim>\<open>handleFix\<close> up to its \<^verbatim>\<open>await\<close>, and the rest of it (\<open>handleFix_settle\<close>) for the
  outcome of \<^verbatim>\<open>fixMermaidCode\<close>. When \<^verbatim>\<open>fixMermaidCode\<close> rejects before calling the service,
  the rest runs with that rejection and no call is recorded.
\<close>

definition handleFix_settle :: "thrown + string \<Rightarrow> state \<Rightarrow> state" where
  "handleFix_settle res st =
     (let st1 = (case res of
                   Inr fixedCode \<Rightarrow>
                     addLog SUCCESS ''Fix Applied''
                       (Some ''The AI has updated the code. Verifying render...'')
                       (st\<lparr>code := fixedCode\<rparr>)
                 | Inl e \<Rightarrow>
                     addLog ERROR ''Fix Failed'' (Some (orElse (messageOf e) ''Unknown error'')) st)
      in st1\<lparr>isProcessing := False\<rparr>)"

definition handleFix :: "string option \<Rightarrow> state \<Rightarrow> state" where
  "handleFix apiKey st =
     (case error st of
        None \<Rightarrow> st
      | Some err \<Rightarrow>
          if err = [] then st
          else (let st1 = st\<lparr>isProcessing := True\<rparr>;
                    st2 = addLog INFO ''AI Attempting to Fix Syntax...''
                            (Some (''Error context: '' @ take 100 err @ ''...'')) st1
                in case fixMermaidCode_call apiKey (code st) err of
                     Inl e \<Rightarrow> handleFix_settle (Inl e) st2
                   | Inr req \<Rightarrow>
                       st2\<lparr>fixCalls := fixCalls st2 @ [\<lparr>sent = req, outstanding = True\<rparr>]\<rparr>))"

subsection \<open>Events\<close>

text \<open>
  What can happen to the mounted application: the text area changes the source; the compile of
  effect instance \<open>i\<close> settles; pointer, wheel and toolbar events on the renderer; a click on
  the header button \<^verbatim>\<open>Fix with AI\<close> or on the button \<^verbatim>\<open>Auto-Fix\<close> of the error toast; the
  service call number \<open>i\<close> settles; React renders an update that is still waiting. Each button
  acts only where the JSX renders it enabled.

  A change of the text area is handled inside a React event: the update is rendered and the
  effects it triggers run before the next event, in one step. The re-run of the render effect
  that a change of \<open>error\<close> triggers is taken in the same step as the settling compile that
  changes it. The rest of \<^verbatim>\<open>handleFix\<close> runs after an \<^verbatim>\<open>await\<close>, outside any event handler:
  its \<^verbatim>\<open>setCode\<close> changes the source at once, but React renders it, and cleans up and re-runs
  the render effect, only later (\<open>Render\<close>); until then the newest effect instance stays
  mounted and other events can come in between.
\<close>

datatype event =
  SetCode string
  | Settle nat compiled
  | MouseDown real real
  | MouseMove real real
  | MouseUp
  | MouseLeave
  | Wheel real
  | ZoomIn
  | ZoomOut
  | ResetView
  | ClickFix
  | ClickAutoFix
  | FixSettle nat response
  | Render

text \<open>
  React renders a waiting update of the source: the dependency \<^verbatim>\<open>code\<close> of the newest effect
  instance is its \<open>source\<close>; when the current source differs from it, that instance is cleaned
  up and the effect runs again.
\<close>

definition reactRender :: "state \<Rightarrow> state" where
  "reactRender st =
     (if runs st \<noteq> [] \<and> source (last (runs st)) = code st then st
      else renderEffect (cleanup st))"

fun step :: "string option \<Rightarrow> state \<Rightarrow> event \<Rightarrow> state" where
  "step k st (SetCode s) = commit st (st\<lparr>code := s\<rparr>)"
| "step k st (Settle i r) =
     (if i < length (runs st) \<and> status (runs st ! i) = InFlight
      then commit st
             (renderDiagram_settle i r
                (st\<lparr>runs := (runs st)[i := (runs st ! i)\<lparr>status := Settled\<rparr>]\<rparr>))
      else st)"
| "step k st (MouseDown x y) = handleMouseDown x y st"
| "step k st (MouseMove x y) = handleMouseMove x y st"
| "step k st MouseUp = handleMouseUp st"
| "step k st MouseLeave = handleMouseUp st"
| "step k st (Wheel deltaY) = handleWheel deltaY st"
| "step k st ZoomIn = zoomIn st"
| "step k st ZoomOut = zoomOut st"
| "step k st ResetView = resetView st"
| "step k st ClickFix =
     (if isAIEnabled k \<and> truthy (error st) \<and> \<not> isProcessing st then commit st (handleFix k st)
      else st)"
| "step k st ClickAutoFix =
     (if truthy (error st) \<and> isAIEnabled k then commit st (handleFix k st) else st)"
| "step k st (FixSettle i r) =
     (if i < length (fixCalls st) \<and> outstanding (fixCalls st ! i)
      then handleFix_settle (serviceReturn r)
             (st\<lparr>fixCalls := (fixCalls st)[i := (fixCalls st ! i)\<lparr>outstanding := False\<rparr>]\<rparr>)
      else st)"
| "step k st Render = reactRender st"

definition run_events :: "string option \<Rightarrow> state \<Rightarrow> event list \<Rightarrow> state" where
  "run_events k st evs = foldl (step k) st evs"

text \<open>
  The state after the first render: the initial values of every \<^verbatim>\<open>useState\<close>, the first
  instance of the render effect, and the log entry of the mount effect of \<^verbatim>\<open>App\<close>.
\<close>

definition initial :: "string option \<Rightarrow> state" where
  "initial k =
     renderEffect
       (addLog INFO
          (if \<not> isAIEnabled k then ''System Ready (Offline Mode)'' else ''System Ready'')
          (Some (if \<not> isAIEnabled k
                 then ''AI features are disabled because no API Key was found. Editor is fully functional.''
                 else ''AI features are enabled.''))
          \<lparr>code = INITIAL_CODE, logs = [], error = None, isProcessing = False,
           svgContent = [], pan = (0, 0), scale = 1, isDragging = False, dragStart = (0, 0),
           runs = [], notifications = [], fixCalls = []\<rparr>)"

text \<open>What the user sees and what the hooks have reported.\<close>

definition display ::
  "state \<Rightarrow> string \<times> string option \<times> (real \<times> real) \<times> real \<times> LogEntry list \<times> notification list" where
  "display st = (svgContent st, error st, pan st, scale st, logs st, notifications st)"

text \<open>The number of service calls under way.\<close>

definition outstandingFixes :: "state \<Rightarrow> nat" where
  "outstandingFixes st = length (filter outstanding (fixCalls st))"

subsection \<open>Invariants and scenarios\<close>

text \<open>The bounds of the zoom factor.\<close>

definition scaleInRange :: "state \<Rightarrow> bool" where
  "scaleInRange st = (0.1 \<le> scale st \<and> scale st \<le> 5)"



text \<open>
  Two sources, one the engine accepts and one it rejects, and the state in which the
  application, with a credential configured, shows the error of the rejected one.
\<close>

definition validSource :: string where
  "validSource = ''graph TD'' @ [CHR 0x0A] @ ''A-->B''"

definition brokenSource :: string where
  "brokenSource = ''graph TD'' @ [CHR 0x0A] @ ''A->>>B''"

definition parseError :: thrown where
  "parseError = ThrownError ''Parse error on line 2''"

definition failedState :: state where
  "failedState =
     run_events (Some ''key'') (initial (Some ''key''))
       [SetCode brokenSource, Settle 1 (Rejects parseError)]"

text \<open>
  The error of the broken text is still shown when the user types the valid text and asks for a
  fix; the service answers with empty text while the compile of the valid text (instance 3) is
  under way. \<open>fixPending\<close> is the state right after that answer, before React has rendered it.
\<close>

definition fixPending :: state where
  "fixPending =
     run_events (Some ''key'') failedState
       [SetCode validSource, ClickAutoFix, FixSettle 0 (ServiceResponse (Some []))]"

text \<open>
  The zoom buttons with the rounding of double arithmetic made explicit: \<open>rnd\<close> maps a real
  number to the double nearest to it; a literal stands for the double nearest to it, and
  \<^verbatim>\<open>*\<close> and \<^verbatim>\<open>/\<close> round the exact result (5 is a double). With the identity for \<open>rnd\<close>
  these are \<open>zoomIn\<close> and \<open>zoomOut\<close>.
\<close>

definition zoomInRounded :: "(real \<Rightarrow> real) \<Rightarrow> state \<Rightarrow> state" where
  "zoomInRounded rnd st = st\<lparr>scale := min 5 (rnd (scale st * rnd 1.2))\<rparr>"

definition zoomOutRounded :: "(real \<Rightarrow> real) \<Rightarrow> state \<Rightarrow> state" where
  "zoomOutRounded rnd st = st\<lparr>scale := max (rnd 0.1) (rnd (scale st / rnd 1.2))\<rparr>"

section \<open>Properties\<close>

subsection \<open>Auxiliary facts\<close>

lemmas eval_defs =
  run_events_def initial_def commit_def renderEffect_def cleanup_def addLog_def
  renderDiagram_settle_def onError_def onSuccess_def handleMermaidError_def
  handleMermaidSuccess_def handleFix_def handleFix_settle_def fixMermaidCode_call_def
  serviceReturn_def cleanResponse_def isAIEnabled_def ai_def truthy_def orElse_def trim_def
  isWhiteSpace_def startsWith_def endsWith_def INITIAL_CODE_def brokenSource_def
  validSource_def parseError_def failedState_def fixPending_def reactRender_def
  outstandingFixes_def display_def
  handleMouseDown_def handleMouseMove_def handleMouseUp_def handleWheel_def
  zoomIn_def zoomOut_def resetView_def Let_def

lemma commit_fields [simp]:
  "svgContent (commit old st) = svgContent st"
  "error (commit old st) = error st"
  "code (commit old st) = code st"
  "pan (commit old st) = pan st"
  "scale (commit old st) = scale st"
  "logs (commit old st) = logs st"
  "notifications (commit old st) = notifications st"
  "fixCalls (commit old st) = fixCalls st"
  "isProcessing (commit old st) = isProcessing st"
  by (simp_all add: commit_def renderEffect_def cleanup_def)

lemma renderDiagram_settle_frame [simp]:
  "runs (renderDiagram_settle i r st) = runs st"
  "code (renderDiagram_settle i r st) = code st"
  by (simp_all add: renderDiagram_settle_def onError_def onSuccess_def handleMermaidError_def
      handleMermaidSuccess_def addLog_def Let_def split: compiled.splits)

lemma handleFix_frame [simp]:
  "runs (handleFix k st) = runs st"
  "code (handleFix k st) = code st"
  "scale (handleFix k st) = scale st"
  by (simp_all add: handleFix_def handleFix_settle_def addLog_def Let_def
      split: option.splits sum.splits)

lemma handleFix_settle_frame [simp]:
  "runs (handleFix_settle res st) = runs st"
  "scale (handleFix_settle res st) = scale st"
  by (simp_all add: handleFix_settle_def addLog_def Let_def split: sum.splits)

text \<open>A compile that settles while its instance is in flight and mounted.\<close>

lemma Settle_current:
  assumes "i < length (runs st)" and "status (runs st ! i) = InFlight"
    and "isMounted (runs st ! i)"
  shows "step k st (Settle i r) =
     commit st (case r of
        Renders svg \<Rightarrow>
          (onSuccess (st\<lparr>runs := (runs st)[i := (runs st ! i)\<lparr>status := Settled\<rparr>],
                         svgContent := stripMaxWidth svg\<rparr>))\<lparr>pan := (0, 0), scale := 1\<rparr>
      | Rejects e \<Rightarrow>
          onError (renderErrorMessage e)
            (st\<lparr>runs := (runs st)[i := (runs st ! i)\<lparr>status := Settled\<rparr>]\<rparr>))"
  using assms by (simp add: renderDiagram_settle_def Let_def split: compiled.splits)

subsubsection \<open>The zoom factor stays in range\<close>

lemma scale_renderDiagram_settle:
  "scale (renderDiagram_settle i r st) = scale st \<or> scale (renderDiagram_settle i r st) = 1"
  by (simp add: renderDiagram_settle_def onError_def handleMermaidError_def addLog_def Let_def
      split: compiled.splits)

lemma scaleInRange_step: "scaleInRange st \<Longrightarrow> scaleInRange (step k st ev)"
proof (cases ev)
  case (Settle i r)
  assume "scaleInRange st"
  with scale_renderDiagram_settle
    [of i r "st\<lparr>runs := (runs st)[i := (runs st ! i)\<lparr>status := Settled\<rparr>]\<rparr>"]
  show ?thesis using Settle
    by (auto simp: scaleInRange_def)
qed (auto simp: scaleInRange_def handleMouseDown_def handleMouseMove_def handleMouseUp_def
      handleWheel_def zoomIn_def zoomOut_def resetView_def reactRender_def renderEffect_def
      cleanup_def Let_def)

lemma scaleInRange_run_events: "scaleInRange st \<Longrightarrow> scaleInRange (run_events k st evs)"
  unfolding run_events_def
  by (induction evs arbitrary: st) (simp_all add: scaleInRange_step)

lemma scaleInRange_initial: "scaleInRange (initial k)"
  by (simp add: scaleInRange_def initial_def renderEffect_def addLog_def)

subsubsection \<open>Only the newest effect instance is mounted\<close>


lemma nth_status_update:
  "\<not> (i = j \<and> i < length rs) \<Longrightarrow> rs[i := (rs ! i)\<lparr>status := s\<rparr>] ! j = rs ! j"
  by (cases "i = j") (simp_all add: list_update_beyond)

lemma isMounted_status_update [simp]:
  "isMounted (rs[i := (rs ! i)\<lparr>status := s\<rparr>] ! j) = isMounted (rs ! j)"
  by (cases "i = j \<and> i < length rs") (simp_all add: nth_status_update)

lemma source_status_update [simp]:
  "source (rs[i := (rs ! i)\<lparr>status := s\<rparr>] ! j) = source (rs ! j)"
  by (cases "i = j \<and> i < length rs") (simp_all add: nth_status_update)


lemma source_last_status_update:
  "source (last (rs[i := (rs ! i)\<lparr>status := s\<rparr>])) = source (last rs)"
  by (cases "rs = []") (simp_all add: last_conv_nth)







subsubsection \<open>Effect instances are never removed\<close>




lemma length_runs_SetCode:
  "c \<noteq> code st \<Longrightarrow> length (runs (step k st (SetCode c))) = Suc (length (runs st))"
  by (simp add: commit_def renderEffect_def cleanup_def)

subsubsection \<open>A compile that settles unmounted\<close>



lemma status_cleanup: "map status (runs (cleanup st)) = map status (runs st)"
  by (cases "runs st = []")
    (simp_all add: cleanup_def map_update last_conv_nth list_update_same_conv)

subsubsection \<open>A run that starts compiles the current source\<close>



subsubsection \<open>The zoom buttons without rounding\<close>

lemma zoomRounded_exact: "zoomInRounded (\<lambda>x. x) st = zoomIn st" "zoomOutRounded (\<lambda>x. x) st = zoomOut st"
  by (simp_all add: zoomInRounded_def zoomOutRounded_def zoomIn_def zoomOut_def)

subsection \<open>The render pipeline under source changes\<close>




text \<open>
  C5. A successful compile of the current run (its effect instance in flight and mounted)
  does, in one step: the artifact becomes the new markup, with every \<^verbatim>\<open>max-width\<close>
  declaration removed; no error is active afterwards (an error message that was shown is
  cleared); the pan is \<open>(0, 0)\<close> and the zoom factor \<open>1\<close>; the hook \<^verbatim>\<open>onSuccess\<close> has been
  called. The handler behind the hook writes its log entry only when an error was shown.
\<close>

theorem successful_compile_effects:
  assumes "i < length (runs st)" and "status (runs st ! i) = InFlight"
    and "isMounted (runs st ! i)"
  shows "svgContent (step k st (Settle i (Renders svg))) = stripMaxWidth svg
     \<and> \<not> truthy (error (step k st (Settle i (Renders svg))))
     \<and> (truthy (error st) \<longrightarrow> error (step k st (Settle i (Renders svg))) = None)
     \<and> pan (step k st (Settle i (Renders svg))) = (0, 0)
     \<and> scale (step k st (Settle i (Renders svg))) = 1
     \<and> notifications (step k st (Settle i (Renders svg))) = notifications st @ [NotifySuccess]
     \<and> logs (step k st (Settle i (Renders svg)))
         = (if truthy (error st)
            then logs st @ [\<lparr>level = SUCCESS, message = ''Diagram Rendered Successfully'',
                             details = None\<rparr>]
            else logs st)"
  unfolding Settle_current[OF assms]
  by (simp add: onSuccess_def handleMermaidSuccess_def addLog_def truthy_def)

text \<open>
  After the broken text has failed, the user zooms in and changes the source to the valid
  text; its compile then succeeds.
\<close>

theorem successful_compile_effects_witness:
  "svgContent (step (Some ''key'')
        (run_events (Some ''key'') failedState [Settle 2 (Rejects parseError), ZoomIn, SetCode validSource])
        (Settle 3 (Renders ''<svg></svg>''))) = ''<svg></svg>''
   \<and> error (step (Some ''key'')
        (run_events (Some ''key'') failedState [Settle 2 (Rejects parseError), ZoomIn, SetCode validSource])
        (Settle 3 (Renders ''<svg></svg>''))) = None
   \<and> pan (step (Some ''key'')
        (run_events (Some ''key'') failedState [Settle 2 (Rejects parseError), ZoomIn, SetCode validSource])
        (Settle 3 (Renders ''<svg></svg>''))) = (0, 0)
   \<and> scale (step (Some ''key'')
        (run_events (Some ''key'') failedState [Settle 2 (Rejects parseError), ZoomIn, SetCode validSource])
        (Settle 3 (Renders ''<svg></svg>''))) = 1
   \<and> last (notifications (step (Some ''key'')
        (run_events (Some ''key'') failedState [Settle 2 (Rejects parseError), ZoomIn, SetCode validSource])
        (Settle 3 (Renders ''<svg></svg>'')))) = NotifySuccess"
proof -
  let ?st = "run_events (Some ''key'') failedState
      [Settle 2 (Rejects parseError), ZoomIn, SetCode validSource]"
  have h: "3 < length (runs ?st)" "status (runs ?st ! 3) = InFlight" "isMounted (runs ?st ! 3)"
    by (simp_all add: eval_defs)
  have e: "truthy (error ?st)" by (simp add: eval_defs)
  have s: "stripMaxWidth ''<svg></svg>'' = ''<svg></svg>''"
    by (simp add: matchMaxWidth_def startsWith_def)
  from successful_compile_effects[OF h, of "Some ''key''" "''<svg></svg>''"] e s
  show ?thesis by simp
qed

text \<open>The normalisation of the markup, on an example.\<close>

lemma stripMaxWidth_example:
  "stripMaxWidth (''<svg style='' @ [CHR 0x22] @ ''max-width: 512px; color: red;'' @ [CHR 0x22] @ ''>'')
     = ''<svg style='' @ [CHR 0x22] @ '' color: red;'' @ [CHR 0x22] @ ''>''"
  by (simp add: matchMaxWidth_def startsWith_def styleChar_def)



text \<open>
  C8. When the source is set to a text that is empty or consists of white space only, artifact,
  error, viewport, log and hook calls stay as they are, and no compile is started: the
  compiles of the earlier effect instances stand as before, and the new instance, if the text
  differs from the current one, has not called the engine.
\<close>

theorem blank_source_no_transition:
  assumes "trim c = []"
  shows "display (step k st (SetCode c)) = display st
     \<and> map status (runs (step k st (SetCode c)))
         = map status (runs st) @ (if c = code st then [] else [NotStarted])"
  using assms status_cleanup[of "st\<lparr>code := c\<rparr>"]
  by (simp add: display_def commit_def) (simp add: renderEffect_def cleanup_def)

text \<open>The source becomes a space, a line feed and a tab while the first compile is under way.\<close>

theorem blank_source_no_transition_witness:
  "trim ([CHR 0x20, CHR 0x0A, CHR 0x09] :: string) = []
   \<and> display (step None (initial None) (SetCode [CHR 0x20, CHR 0x0A, CHR 0x09]))
       = display (initial None)
   \<and> map status (runs (step None (initial None) (SetCode [CHR 0x20, CHR 0x0A, CHR 0x09])))
       = [InFlight, NotStarted]"
proof -
  have blank: "trim ([CHR 0x20, CHR 0x0A, CHR 0x09] :: string) = []"
    by (simp add: trim_def isWhiteSpace_def)
  have before: "map status (runs (initial None)) = [InFlight]"
    "[CHR 0x20, CHR 0x0A, CHR 0x09] \<noteq> code (initial None)"
    by (simp_all add: eval_defs)
  from blank_source_no_transition[OF blank, of None "initial None"] blank before
  show ?thesis by simp
qed

subsection \<open>The viewport\<close>

text \<open>
  C2. After every sequence of events from the initial state (wheel, zoom buttons, drag, reset,
  and also source changes, compiles and fixes), hence after every step of it, the zoom factor
  lies in the interval from 0.1 to 5.
\<close>

theorem scale_within_bounds:
  "0.1 \<le> scale (run_events k (initial k) evs) \<and> scale (run_events k (initial k) evs) \<le> 5"
  using scaleInRange_run_events[OF scaleInRange_initial, of k k evs]
  by (simp add: scaleInRange_def)

text \<open>The bounds after a run that reaches both ends of the interval.\<close>

theorem scale_within_bounds_witness:
  "0.1 \<le> scale (run_events None (initial None)
             [Wheel 100000, ZoomOut, MouseDown 1 2, MouseMove 3 4, MouseUp, ZoomIn, ResetView, Wheel (- 100000)])
   \<and> scale (run_events None (initial None)
             [Wheel 100000, ZoomOut, MouseDown 1 2, MouseMove 3 4, MouseUp, ZoomIn, ResetView, Wheel (- 100000)]) \<le> 5"
  by (rule scale_within_bounds)

text \<open>
  C9, as the code has it. Let \<open>rnd\<close> round to the nearest double: in the range from \<open>1 / 16\<close>
  to \<open>8\<close> it is off by at most the fraction \<open>1 / 2 ^ 53\<close> of its argument. For a zoom factor \<open>s\<close>
  between the lower bound (the double \<open>0.1\<close>) and \<open>5\<close> for which zooming in stays below the
  upper clamp, zooming in and then out gives \<open>s\<close> again within floating-point tolerance: the
  result differs from \<open>s\<close> by at most \<open>3 s / 2 ^ 53\<close>.
\<close>

theorem zoomIn_zoomOut_roundtrip:
  assumes rnd: "\<And>x. 1 / 16 \<le> x \<Longrightarrow> x \<le> 8 \<Longrightarrow> \<bar>rnd x - x\<bar> \<le> x / 2 ^ 53"
    and lower: "rnd 0.1 \<le> scale st"
    and upper: "scale st \<le> 5"
    and unclamped: "rnd (scale st * rnd 1.2) \<le> 5"
  shows "\<bar>scale (zoomOutRounded rnd (zoomInRounded rnd st)) - scale st\<bar>
           \<le> 3 * scale st / 2 ^ 53"
proof -
  define u :: real where "u = 1 / 2 ^ 53"
  define s where "s = scale st"
  define k where "k = rnd 1.2"
  define l where "l = rnd 0.1"
  define y where "y = rnd (s * k)"
  define z where "z = rnd (y / k)"
  have u: "0 < u" "u \<le> 1 / 1000"
    by (simp_all add: u_def)
  have "\<bar>k - 1.2\<bar> \<le> 1.2 * u"
    using rnd[of "1.2"] by (simp add: k_def u_def)
  then have "k - 1.2 \<le> 1.2 * u" "- (k - 1.2) \<le> 1.2 * u"
    unfolding abs_le_iff by blast+
  with u have k: "119 / 100 \<le> k" "k \<le> 121 / 100"
    by - linarith+
  have "\<bar>l - 0.1\<bar> \<le> 0.1 * u"
    using rnd[of "0.1"] by (simp add: l_def u_def)
  then have "- (l - 0.1) \<le> 0.1 * u"
    unfolding abs_le_iff by blast
  with u have "9 / 100 \<le> l"
    by linarith
  with lower have s: "9 / 100 \<le> s" "s \<le> 5" "l \<le> s"
    using upper by (simp_all add: s_def l_def)
  have sk_lo: "9 / 100 * (119 / 100) \<le> s * k"
    using s(1) k(1) by (intro mult_mono) simp_all
  have sk_hi: "s * k \<le> 5 * (121 / 100)"
    using s k by (intro mult_mono) simp_all
  have y_err: "\<bar>y - s * k\<bar> \<le> u * (s * k)"
    using rnd[of "s * k"] sk_lo sk_hi by (simp add: y_def u_def)
  have kpos: "0 < k" using k by simp
  have y_hi: "y \<le> 5"
    using unclamped by (simp add: y_def s_def k_def)
  have "y / k - s = (y - s * k) / k"
    using kpos by (simp add: field_simps)
  then have "\<bar>y / k - s\<bar> = \<bar>y - s * k\<bar> / k"
    using kpos by (simp add: abs_divide)
  also have "\<dots> \<le> (u * (s * k)) / k"
    using y_err kpos by (intro divide_right_mono) simp_all
  also have "\<dots> = u * s"
    using kpos by simp
  finally have q_err: "\<bar>y / k - s\<bar> \<le> u * s" .
  have us: "u * s \<le> s / 1000"
    using u s by (simp add: mult_right_mono)
  from q_err us s have q_lo: "1 / 16 \<le> y / k"
    by linarith
  have "y / k \<le> 5 / k"
    using y_hi kpos by (simp add: divide_right_mono)
  also have "\<dots> \<le> 5 / (119 / 100)"
    using k(1) by (intro divide_left_mono) simp_all
  also have "\<dots> \<le> 8" by simp
  finally have q_hi: "y / k \<le> 8" .
  have z_err: "\<bar>z - y / k\<bar> \<le> u * (y / k)"
    using rnd[OF q_lo q_hi] by (simp add: z_def u_def)
  have "y / k \<le> s + u * s"
    using q_err by linarith
  then have "u * (y / k) \<le> u * (s + u * s)"
    using u(1) by (intro mult_left_mono) simp_all
  also have "\<dots> \<le> 2 * (u * s)"
  proof -
    have "u * (u * s) \<le> 1 * (u * s)"
      using u s by (intro mult_right_mono) simp_all
    then show ?thesis by (simp add: algebra_simps)
  qed
  finally have "\<bar>z - y / k\<bar> \<le> 2 * (u * s)"
    using z_err by simp
  with q_err have z_close: "\<bar>z - s\<bar> \<le> 3 * (u * s)"
    by linarith
  have result: "scale (zoomOutRounded rnd (zoomInRounded rnd st)) = max l z"
    using y_hi
    by (simp add: zoomOutRounded_def zoomInRounded_def l_def z_def y_def k_def s_def min_def)
  have "\<bar>max l z - s\<bar> \<le> 3 * (u * s)"
  proof (cases "l \<le> z")
    case True
    with z_close show ?thesis by (simp add: max_def)
  next
    case False
    then have "max l z = l" by (simp add: max_def)
    moreover have "0 \<le> u * s" using u s by simp
    ultimately show ?thesis using False s(3) z_close by linarith
  qed
  then show ?thesis
    unfolding result by (simp add: u_def s_def)
qed

text \<open>
  Zooming in and out from the initial zoom factor, with a rounding that is off by the full
  fraction each time: the result is not \<open>1\<close>, and within the tolerance.
\<close>

theorem zoomIn_zoomOut_roundtrip_witness:
  "scale (zoomOutRounded (\<lambda>x. x + x / 2 ^ 53) (zoomInRounded (\<lambda>x. x + x / 2 ^ 53) (initial None)))
     \<noteq> scale (initial None)
   \<and> \<bar>scale (zoomOutRounded (\<lambda>x. x + x / 2 ^ 53) (zoomInRounded (\<lambda>x. x + x / 2 ^ 53) (initial None)))
        - scale (initial None)\<bar> \<le> 3 * scale (initial None) / 2 ^ 53"
proof -
  have one: "scale (initial None) = 1"
    by (simp add: initial_def renderEffect_def addLog_def)
  have rnd: "\<bar>(x + x / 2 ^ 53) - x\<bar> \<le> x / 2 ^ 53" if "1 / 16 \<le> x" "x \<le> 8" for x :: real
    using that by simp
  have lower: "0.1 + 0.1 / 2 ^ 53 \<le> scale (initial None)"
    by (simp add: one)
  have upper: "scale (initial None) \<le> 5"
    by (simp add: one)
  have unclamped: "scale (initial None) * (1.2 + 1.2 / 2 ^ 53)
      + scale (initial None) * (1.2 + 1.2 / 2 ^ 53) / 2 ^ 53 \<le> 5"
    by (simp add: one)
  have differs: "scale (zoomOutRounded (\<lambda>x. x + x / 2 ^ 53)
      (zoomInRounded (\<lambda>x. x + x / 2 ^ 53) (initial None))) \<noteq> scale (initial None)"
    by (simp add: one zoomOutRounded_def zoomInRounded_def)
  from zoomIn_zoomOut_roundtrip[of "\<lambda>x. x + x / 2 ^ 53" "initial None", OF rnd lower upper unclamped]
    differs
  show ?thesis by blast
qed

text \<open>
  C9 as stated fails at the upper bound: nine clicks on the zoom-in button bring the zoom factor
  to 5; zooming in and out from there ends at \<open>25 / 6\<close>.
\<close>

theorem zoomIn_zoomOut_at_max:
  "scale (run_events None (initial None)
            [ZoomIn, ZoomIn, ZoomIn, ZoomIn, ZoomIn, ZoomIn, ZoomIn, ZoomIn, ZoomIn]) = 5
   \<and> scale (zoomOut (zoomIn (run_events None (initial None)
            [ZoomIn, ZoomIn, ZoomIn, ZoomIn, ZoomIn, ZoomIn, ZoomIn, ZoomIn, ZoomIn]))) = 25 / 6"
  by (simp add: run_events_def zoomIn_def zoomOut_def initial_def renderEffect_def addLog_def)

subsection \<open>The correction loop\<close>

text \<open>
  C3, as the code has it. When the service call of an outstanding fix throws, the entry
  \<^verbatim>\<open>Fix Failed\<close> with the message of the error (or \<^verbatim>\<open>Unknown error\<close>) is logged, and source
  and error stay as they are. When the service answers with empty or no text, the answer is
  taken as the fix: the source becomes the empty string, the entry \<^verbatim>\<open>Fix Applied\<close> is logged,
  and the error stays as it is.
\<close>

theorem fix_failure_keeps_state:
  assumes "i < length (fixCalls st)" and "outstanding (fixCalls st ! i)"
  shows "code (step k st (FixSettle i (ServiceThrows e))) = code st
     \<and> error (step k st (FixSettle i (ServiceThrows e))) = error st
     \<and> logs (step k st (FixSettle i (ServiceThrows e)))
         = logs st @ [\<lparr>level = ERROR, message = ''Fix Failed'',
                       details = Some (orElse (messageOf e) ''Unknown error'')\<rparr>]
     \<and> (orElse text [] = [] \<longrightarrow>
          code (step k st (FixSettle i (ServiceResponse text))) = []
          \<and> error (step k st (FixSettle i (ServiceResponse text))) = error st
          \<and> logs (step k st (FixSettle i (ServiceResponse text)))
              = logs st @ [\<lparr>level = SUCCESS, message = ''Fix Applied'',
                   details = Some ''The AI has updated the code. Verifying render...''\<rparr>])"
  using assms
  by (simp add: handleFix_settle_def serviceReturn_def addLog_def cleanResponse_def trim_def
      startsWith_def endsWith_def)

text \<open>
  The fix requested for the broken text fails with an error of the service; or the service
  answers without text.
\<close>

theorem fix_failure_keeps_state_witness:
  "code (step (Some ''key'') (step (Some ''key'') failedState ClickAutoFix)
        (FixSettle 0 (ServiceThrows (ThrownError ''503 Service Unavailable'')))) = brokenSource
   \<and> error (step (Some ''key'') (step (Some ''key'') failedState ClickAutoFix)
        (FixSettle 0 (ServiceThrows (ThrownError ''503 Service Unavailable''))))
       = Some ''Parse error on line 2''
   \<and> last (logs (step (Some ''key'') (step (Some ''key'') failedState ClickAutoFix)
        (FixSettle 0 (ServiceThrows (ThrownError ''503 Service Unavailable'')))))
       = \<lparr>level = ERROR, message = ''Fix Failed'',
          details = Some ''503 Service Unavailable''\<rparr>
   \<and> code (step (Some ''key'') (step (Some ''key'') failedState ClickAutoFix)
        (FixSettle 0 (ServiceResponse None))) = []
   \<and> error (step (Some ''key'') (step (Some ''key'') failedState ClickAutoFix)
        (FixSettle 0 (ServiceResponse None))) = Some ''Parse error on line 2''"
proof -
  have sent: "0 < length (fixCalls (step (Some ''key'') failedState ClickAutoFix))"
    by (simp add: eval_defs)
  have pending: "outstanding (fixCalls (step (Some ''key'') failedState ClickAutoFix) ! 0)"
    by (simp add: eval_defs)
  have before: "code (step (Some ''key'') failedState ClickAutoFix) = brokenSource"
    "error (step (Some ''key'') failedState ClickAutoFix) = Some ''Parse error on line 2''"
    by (simp_all add: eval_defs)
  from fix_failure_keeps_state[OF sent pending, of "Some ''key''"
      "ThrownError ''503 Service Unavailable''" None] before
  show ?thesis by (simp add: orElse_def)
qed

text \<open>
  C3 as stated fails for empty text: the fix requested for the broken text is answered with
  the empty string, the source is overwritten by it, and the log reports success.
\<close>

theorem empty_fix_overwrites_source:
  "code (step (Some ''key'') failedState ClickAutoFix) = brokenSource
   \<and> code (step (Some ''key'') (step (Some ''key'') failedState ClickAutoFix)
        (FixSettle 0 (ServiceResponse (Some [])))) = []
   \<and> last (logs (step (Some ''key'') (step (Some ''key'') failedState ClickAutoFix)
        (FixSettle 0 (ServiceResponse (Some [])))))
       = \<lparr>level = SUCCESS, message = ''Fix Applied'',
          details = Some ''The AI has updated the code. Verifying render...''\<rparr>"
  by (simp add: eval_defs)

text \<open>
  C4. The button \<^verbatim>\<open>Auto-Fix\<close> of the error toast is never disabled and \<^verbatim>\<open>handleFix\<close>
  does not look at \<open>isProcessing\<close>: a second click while the first call is outstanding sends a
  second request, and two calls are outstanding.
\<close>

theorem double_autofix_two_calls:
  "outstandingFixes (step (Some ''key'') failedState ClickAutoFix) = 1
   \<and> outstandingFixes (run_events (Some ''key'') failedState [ClickAutoFix, ClickAutoFix]) = 2"
  by (simp add: eval_defs)

text \<open>
  The header button \<^verbatim>\<open>Fix with AI\<close> is disabled while \<open>isProcessing\<close> holds; a second click on
  it is ignored.
\<close>

lemma double_header_fix_one_call:
  "outstandingFixes (run_events (Some ''key'') failedState [ClickFix, ClickFix]) = 1"
  by (simp add: eval_defs)

subsection \<open>The capability flag\<close>

text \<open>
  C10. \<open>isAIEnabled\<close> holds exactly when the credential is present, non-empty and not the
  string \<^verbatim>\<open>undefined\<close>. When it does not hold, \<^verbatim>\<open>generateMermaidCode\<close> and
  \<^verbatim>\<open>fixMermaidCode\<close> reject with the error
  \<^verbatim>\<open>AI features are disabled. API Key is missing.\<close> and no request is sent to the service.
\<close>

theorem isAIEnabled_guard:
  "(isAIEnabled apiKey \<longleftrightarrow> (\<exists>s. apiKey = Some s \<and> s \<noteq> [] \<and> s \<noteq> ''undefined''))
   \<and> (\<not> isAIEnabled apiKey \<longrightarrow>
        generateMermaidCode apiKey service prompt type
          = ([], Inl (ThrownError ''AI features are disabled. API Key is missing.''))
        \<and> fixMermaidCode apiKey service brokenCode errorMessage
          = ([], Inl (ThrownError ''AI features are disabled. API Key is missing.'')))"
  by (auto simp: isAIEnabled_def generateMermaidCode_def fixMermaidCode_def
      generateMermaidCode_call_def fixMermaidCode_call_def disabledError_def ai_def
      split: option.splits)

text \<open>The credential is the string \<^verbatim>\<open>undefined\<close>, as a build without a key leaves it.\<close>

theorem isAIEnabled_guard_witness:
  "\<not> isAIEnabled (Some ''undefined'')
   \<and> generateMermaidCode (Some ''undefined'') (\<lambda>req. ServiceResponse (Some validSource))
        ''login flow'' Sequence
       = ([], Inl (ThrownError ''AI features are disabled. API Key is missing.''))
   \<and> fixMermaidCode (Some ''undefined'') (\<lambda>req. ServiceResponse (Some validSource))
        brokenSource ''Parse error on line 2''
       = ([], Inl (ThrownError ''AI features are disabled. API Key is missing.''))"
proof -
  have off: "\<not> isAIEnabled (Some ''undefined'')" by (simp add: isAIEnabled_def)
  from isAIEnabled_guard[of "Some ''undefined''" "\<lambda>req. ServiceResponse (Some validSource)"
      "''login flow''" Sequence brokenSource "''Parse error on line 2''"] off
  show ?thesis by blast
qed

text \<open>With a credential the request is sent, and the fences around the answer are removed.\<close>

lemma isAIEnabled_examples:
  "isAIEnabled (Some ''key'')" "\<not> isAIEnabled None" "\<not> isAIEnabled (Some [])"
  by (simp_all add: isAIEnabled_def)

lemma fixMermaidCode_enabled:
  "fixMermaidCode (Some ''key'') (\<lambda>req. ServiceResponse (Some (''```mermaid'' @ [CHR 0x0A] @ validSource @ [CHR 0x0A] @ ''```'')))
      brokenSource ''Parse error on line 2''
     = ([FixRequest brokenSource ''Parse error on line 2''], Inr validSource)"
  by (simp add: fixMermaidCode_def eval_defs)

end
